theory Spec2Isabelle
  imports Complex_Main "HOL-Library.Sublist"
begin

section \<open>The device accessors of the AppEngine client (client/appengine_devices.go)\<close>

text \<open>
  The file holds the device-related calls of an HTTP client: a
  paginated device listing, accessors for one device, and PATCH helpers for aliases,
  metadata and credential inhibition. Every call blocks on one HTTP exchange, so the
  model threads an explicit world \<open>'w\<close> through the transport: a call takes the
  world before the exchange and returns the world after it.
\<close>

subsection \<open>Library functions used by the file: \<open>path.Join\<close> and \<open>path.Clean\<close>\<close>

text \<open>
  Go's \<open>path.Clean\<close> works on the elements of a slash-separated path: it drops empty
  elements and \<open>.\<close>, lets \<open>..\<close> cancel the element before it, drops \<open>..\<close> at
  the start of a rooted path and keeps it at the start of a relative one.
  \<open>split_slash\<close> is \<open>strings.Split(p, "/")\<close> and \<open>join_slash\<close> is
  \<open>strings.Join(es, "/")\<close>.
\<close>

fun split_slash :: "string \<Rightarrow> string list" where
  "split_slash [] = [[]]"
| "split_slash (c # cs) =
     (if c = CHR ''/'' then [] # split_slash cs
      else (case split_slash cs of
              [] \<Rightarrow> [[c]]
            | e # es \<Rightarrow> (c # e) # es))"

fun join_slash :: "string list \<Rightarrow> string" where
  "join_slash [] = []"
| "join_slash [e] = e"
| "join_slash (e # f # es) = e @ CHR ''/'' # join_slash (f # es)"

text \<open>
  \<open>clean_elems rooted out es\<close>: \<open>out\<close> is the output so far, last element first.
\<close>

fun clean_elems :: "bool \<Rightarrow> string list \<Rightarrow> string list \<Rightarrow> string list" where
  "clean_elems rooted out [] = rev out"
| "clean_elems rooted out (e # es) =
     (if e = [] \<or> e = ''.'' then clean_elems rooted out es
      else if e = ''..'' then
        (case out of
           [] \<Rightarrow> if rooted then clean_elems rooted [] es
                 else clean_elems rooted [''..''] es
         | t # ts \<Rightarrow> if t = ''..'' then clean_elems rooted (''..'' # out) es
                     else clean_elems rooted ts es)
      else clean_elems rooted (e # out) es)"

definition path_Clean :: "string \<Rightarrow> string" where
  "path_Clean p =
     (if p = [] then ''.''
      else
        let rooted = (hd p = CHR ''/'');
            body = join_slash (clean_elems rooted [] (split_slash p));
            out = (if rooted then CHR ''/'' # body else body)
        in if out = [] then ''.'' else out)"

text \<open>
  \<open>path.Join\<close> skips leading empty elements, joins the rest with slashes and cleans
  the result; with nothing to join it returns the empty string.
\<close>

definition path_Join :: "string list \<Rightarrow> string" where
  "path_Join elem =
     (case dropWhile (\<lambda>e. e = []) elem of
        [] \<Rightarrow> []
      | e # es \<Rightarrow> path_Clean (join_slash (e # es)))"

text \<open>A path element that \<open>path.Clean\<close> keeps as it is.\<close>

definition plain_elem :: "string \<Rightarrow> bool" where
  "plain_elem e = (e \<noteq> [] \<and> e \<noteq> ''.'' \<and> e \<noteq> ''..'')"

subsection \<open>Data\<close>

text \<open>
  \<open>DeviceIdentifierType\<close> is a Go \<open>int\<close> with three named values (\<open>iota\<close>).
\<close>

type_synonym DeviceIdentifierType = int

definition AutodiscoverDeviceIdentifier :: DeviceIdentifierType where
  "AutodiscoverDeviceIdentifier = 0"

definition AstarteDeviceID :: DeviceIdentifierType where
  "AstarteDeviceID = 1"

definition AstarteDeviceAlias :: DeviceIdentifierType where
  "AstarteDeviceAlias = 2"

text \<open>
  The query parameters of a URL (\<open>url.Values\<close>), restricted to the two parameters the
  collection endpoint has: the opaque continuation token and the page-size bound.
  \<open>url.Values{}\<close> is \<open>no_Values\<close>.
\<close>

record Values =
  next_token :: "string option"
  limit :: "int option"

definition no_Values :: Values where
  "no_Values = \<lparr>next_token = None, limit = None\<rparr>"

text \<open>A \<open>url.URL\<close>: scheme and authority (kept opaque), path and query.\<close>

record URL =
  Host :: string
  Path :: string
  RawQuery :: Values

text \<open>
  The values the file hands to the JSON encoder: Go maps with string keys, strings,
  booleans and the \<open>nil\<close> interface value.
\<close>

datatype json =
    JNull
  | JBool bool
  | JString string
  | JObject "(string \<times> json) list"

record DeviceDetails =
  DeviceID :: string
  Aliases :: "string \<rightharpoonup> string"
  Metadata :: "string \<rightharpoonup> string"
  CredentialsInhibited :: bool

text \<open>
  A response body, classified by the shape it decodes to. \<open>DevicesStats\<close> is declared
  outside the file and is kept as the object the server sent.
\<close>

type_synonym DevicesStats = json

datatype body =
    DeviceDetailsBody DeviceDetails
  | StringListBody "string list"
  | PageBody "string list" "string option"
  | StatsBody DevicesStats
  | OtherBody

datatype error =
    TransportError string
  | UnexpectedStatus int
  | DecodeError
  | NoMorePages
  | URLParseError string
  | NilPointerPanic

datatype http_method = GET | PATCH

record http_request =
  req_method :: http_method
  req_url :: URL
  req_payload :: "json option"

record http_response =
  status :: int
  resp_body :: body

text \<open>
  The transport behind \<open>s.client\<close>: one HTTP exchange, which either fails or yields a
  response, and moves the world on.
\<close>

type_synonym 'w Client = "http_request \<Rightarrow> 'w \<Rightarrow> (error + http_response) \<times> 'w"

text \<open>
  \<open>appEngineURL\<close> holds the outcome of \<open>url.Parse(s.appEngineURL.String())\<close>, the
  first step of every function of the file: \<open>Inr u\<close> for a base URL that parses.
\<close>

record 'w AppEngineService =
  appEngineURL :: "error + URL"
  client :: "'w Client"

record 'w DeviceListPaginator =
  baseURL :: URL
  nextQuery :: Values
  pageSize :: int
  pclient :: "'w Client"
  hasNextPage :: bool

subsection \<open>The paginator constructor\<close>

definition GetDeviceListPaginator ::
  "'w AppEngineService \<Rightarrow> string \<Rightarrow> int \<Rightarrow> error + 'w DeviceListPaginator" where
  "GetDeviceListPaginator s realm pageSize' =
     (case appEngineURL s of
        Inl err \<Rightarrow> Inl err
      | Inr callURL \<Rightarrow>
          let callURL = callURL\<lparr>Path := path_Join [Path callURL, ''/v1/'' @ realm @ ''/devices'']\<rparr>;
              query = no_Values
          in Inr \<lparr>baseURL = callURL, nextQuery = query, pageSize = pageSize',
                  pclient = client s, hasNextPage = True\<rparr>)"

subsection \<open>The HTTP-JSON collaborator\<close>

fun as_DeviceDetails :: "body \<Rightarrow> DeviceDetails option" where
  "as_DeviceDetails (DeviceDetailsBody d) = Some d"
| "as_DeviceDetails _ = None"


fun as_Page :: "body \<Rightarrow> (string list \<times> string option) option" where
  "as_Page (PageBody xs t) = Some (xs, t)"
| "as_Page _ = None"


text \<open>
  Modelled from the spec: \<open>genericJSONDataAPIGET\<close> is defined outside the file. The
  spec describes it as the generic caller that performs a GET, enforces the expected
  success status code and decodes the response body into the target shape, failing with
  a transport, status-code or decode error. The target of the Go call fixes the shape;
  here the decoder for that shape is the first argument.
\<close>

definition genericJSONDataAPIGET ::
  "(body \<Rightarrow> 'a option) \<Rightarrow> 'w Client \<Rightarrow> URL \<Rightarrow> int \<Rightarrow> 'w \<Rightarrow> (error + 'a) \<times> 'w" where
  "genericJSONDataAPIGET decode c callURL expectedCode w =
     (case c \<lparr>req_method = GET, req_url = callURL, req_payload = None\<rparr> w of
        (Inl err, w') \<Rightarrow> (Inl err, w')
      | (Inr resp, w') \<Rightarrow>
          if status resp \<noteq> expectedCode then (Inl (UnexpectedStatus (status resp)), w')
          else (case decode (resp_body resp) of
                  None \<Rightarrow> (Inl DecodeError, w')
                | Some v \<Rightarrow> (Inr v, w')))"

text \<open>
  Modelled from the spec: \<open>genericJSONDataAPIPatch\<close> is defined outside the file. It
  sends the payload with PATCH and enforces the expected success status code; its only
  result is the error, \<open>None\<close> for Go's \<open>nil\<close>.
\<close>

definition genericJSONDataAPIPatch ::
  "'w Client \<Rightarrow> URL \<Rightarrow> json \<Rightarrow> int \<Rightarrow> 'w \<Rightarrow> error option \<times> 'w" where
  "genericJSONDataAPIPatch c callURL payload expectedCode w =
     (case c \<lparr>req_method = PATCH, req_url = callURL, req_payload = Some payload\<rparr> w of
        (Inl err, w') \<Rightarrow> (Some err, w')
      | (Inr resp, w') \<Rightarrow>
          if status resp \<noteq> expectedCode then (Some (UnexpectedStatus (status resp)), w')
          else (None, w'))"

subsection \<open>The paginator\<close>

text \<open>
  Modelled from the spec: the methods of \<open>DeviceListPaginator\<close> are defined outside
  the file. \<open>HasNextPage\<close> is a pure read of the flag.
\<close>

definition HasNextPage :: "'w DeviceListPaginator \<Rightarrow> bool" where
  "HasNextPage d = hasNextPage d"

text \<open>
  Modelled from the spec: \<open>GetNextPage\<close> issues one GET against the collection
  endpoint with the current query parameters and the configured page-size bound, and
  expects status 200. On success it returns the page; a continuation token is loaded
  into the query state and an absent token clears the flag. On failure the paginator is
  left as it was. Called on an exhausted paginator it returns an error and does nothing
  (the spec leaves the choice between this and an empty page open). The result is the
  Go result, the paginator after the call and the world after the call.
\<close>

definition GetNextPage ::
  "'w DeviceListPaginator \<Rightarrow> 'w \<Rightarrow> (error + string list) \<times> 'w DeviceListPaginator \<times> 'w" where
  "GetNextPage d w =
     (if \<not> hasNextPage d then (Inl NoMorePages, d, w)
      else
        let query = (nextQuery d)\<lparr>limit := Some (pageSize d)\<rparr>;
            callURL = (baseURL d)\<lparr>RawQuery := query\<rparr>
        in case genericJSONDataAPIGET as_Page (pclient d) callURL 200 w of
             (Inl err, w') \<Rightarrow> (Inl err, d, w')
           | (Inr (page, None), w') \<Rightarrow> (Inr page, d\<lparr>hasNextPage := False\<rparr>, w')
           | (Inr (page, Some token), w') \<Rightarrow>
               (Inr page,
                d\<lparr>nextQuery := (nextQuery d)\<lparr>next_token := Some token\<rparr>, hasNextPage := True\<rparr>,
                w'))"

subsection \<open>ListDevices\<close>

text \<open>
  The loop of \<open>ListDevices\<close> runs as long as the backend keeps handing out
  continuation tokens, so it is a partial function: \<open>None\<close> stands for a run that does
  not return. A returned value is Go's pair of the list and the error (\<open>None\<close> for
  \<open>nil\<close>), with the world after the last exchange.
\<close>

partial_function (option) ListDevices_loop ::
  "'w DeviceListPaginator \<Rightarrow> string list \<Rightarrow> 'w \<Rightarrow> ((string list \<times> error option) \<times> 'w) option" where
  "ListDevices_loop paginator result w =
     (if HasNextPage paginator then
        (case GetNextPage paginator w of
           (Inl err, paginator', w') \<Rightarrow> Some (([], Some err), w')
         | (Inr page, paginator', w') \<Rightarrow> ListDevices_loop paginator' (result @ page) w')
      else Some ((result, None), w))"

text \<open>\<open>defaultPageSize\<close> is a constant declared outside the file: the first argument.\<close>

definition ListDevices ::
  "int \<Rightarrow> 'w AppEngineService \<Rightarrow> string \<Rightarrow> 'w \<Rightarrow> ((string list \<times> error option) \<times> 'w) option" where
  "ListDevices defaultPageSize s realm w =
     (let result = [] in
      case GetDeviceListPaginator s realm defaultPageSize of
        Inl err \<Rightarrow> Some ((result, Some err), w)
      | Inr paginator \<Rightarrow> ListDevices_loop paginator result w)"

subsection \<open>Identifier resolution\<close>

text \<open>
  Modelled from the spec: \<open>resolveDeviceIdentifierType\<close> is defined outside the file.
  An explicit type is returned unchanged; under autodetection an identifier of the
  canonical shape is a device ID and anything else an alias. The shape check itself is
  not given by the spec: it is the argument \<open>canonical\<close>.
\<close>

definition resolveDeviceIdentifierType ::
  "(string \<Rightarrow> bool) \<Rightarrow> string \<Rightarrow> DeviceIdentifierType \<Rightarrow> DeviceIdentifierType" where
  "resolveDeviceIdentifierType canonical deviceIdentifier deviceIdentifierType =
     (if deviceIdentifierType = AutodiscoverDeviceIdentifier then
        (if canonical deviceIdentifier then AstarteDeviceID else AstarteDeviceAlias)
      else deviceIdentifierType)"

subsection \<open>Accessors and mutations\<close>

text \<open>
  The functions below take the two helpers that are declared outside the file as their
  first arguments: \<open>canonical\<close>, the shape check used by the resolver, and
  \<open>devicePath\<close>, which renders an identifier and its resolved type as the path
  suffix after the realm. Where Go returns a value next to a non-nil error, the model
  returns the error alone (\<open>Inl\<close>). A function that ignores the error of
  \<open>url.Parse\<close> goes on to write through the nil pointer it got: \<open>NilPointerPanic\<close>.
\<close>

definition GetDevice ::
  "(string \<Rightarrow> bool) \<Rightarrow> (string \<Rightarrow> DeviceIdentifierType \<Rightarrow> string) \<Rightarrow> 'w AppEngineService \<Rightarrow>
   string \<Rightarrow> string \<Rightarrow> DeviceIdentifierType \<Rightarrow> 'w \<Rightarrow> (error + DeviceDetails) \<times> 'w" where
  "GetDevice canonical devicePath s realm deviceIdentifier deviceIdentifierType w =
     (let resolvedDeviceIdentifierType =
            resolveDeviceIdentifierType canonical deviceIdentifier deviceIdentifierType
      in case appEngineURL s of
           Inl _ \<Rightarrow> (Inl NilPointerPanic, w)
         | Inr callURL \<Rightarrow>
             let callURL = callURL\<lparr>Path := path_Join [Path callURL,
                   ''/v1/'' @ realm @ ''/'' @ devicePath deviceIdentifier resolvedDeviceIdentifierType]\<rparr>
             in genericJSONDataAPIGET as_DeviceDetails (client s) callURL 200 w)"

definition GetDeviceIDFromAlias ::
  "(string \<Rightarrow> bool) \<Rightarrow> (string \<Rightarrow> DeviceIdentifierType \<Rightarrow> string) \<Rightarrow> 'w AppEngineService \<Rightarrow>
   string \<Rightarrow> string \<Rightarrow> 'w \<Rightarrow> (error + string) \<times> 'w" where
  "GetDeviceIDFromAlias canonical devicePath s realm deviceAlias w =
     (case GetDevice canonical devicePath s realm deviceAlias AstarteDeviceAlias w of
        (Inl err, w') \<Rightarrow> (Inl err, w')
      | (Inr deviceDetails, w') \<Rightarrow> (Inr (DeviceID deviceDetails), w'))"

definition GetDeviceIDFromDeviceIdentifier ::
  "(string \<Rightarrow> bool) \<Rightarrow> (string \<Rightarrow> DeviceIdentifierType \<Rightarrow> string) \<Rightarrow> 'w AppEngineService \<Rightarrow>
   string \<Rightarrow> string \<Rightarrow> DeviceIdentifierType \<Rightarrow> 'w \<Rightarrow> (error + string) \<times> 'w" where
  "GetDeviceIDFromDeviceIdentifier canonical devicePath s realm deviceIdentifier deviceIdentifierType w =
     (let resolvedDeviceIdentifierType =
            resolveDeviceIdentifierType canonical deviceIdentifier deviceIdentifierType
      in if resolvedDeviceIdentifierType = AstarteDeviceAlias
         then GetDeviceIDFromAlias canonical devicePath s realm deviceIdentifier w
         else (Inr deviceIdentifier, w))"



definition AddDeviceAlias ::
  "'w AppEngineService \<Rightarrow> string \<Rightarrow> string \<Rightarrow> string \<Rightarrow> string \<Rightarrow> 'w \<Rightarrow> error option \<times> 'w" where
  "AddDeviceAlias s realm deviceID aliasTag deviceAlias w =
     (case appEngineURL s of
        Inl _ \<Rightarrow> (Some NilPointerPanic, w)
      | Inr callURL \<Rightarrow>
          let callURL = callURL\<lparr>Path := path_Join [Path callURL,
                ''/v1/'' @ realm @ ''/devices/'' @ deviceID]\<rparr>;
              payload = JObject [(''aliases'', JObject [(aliasTag, JString deviceAlias)])]
          in genericJSONDataAPIPatch (client s) callURL payload 200 w)"

definition DeleteDeviceAlias ::
  "'w AppEngineService \<Rightarrow> string \<Rightarrow> string \<Rightarrow> string \<Rightarrow> 'w \<Rightarrow> error option \<times> 'w" where
  "DeleteDeviceAlias s realm deviceID aliasTag w =
     (case appEngineURL s of
        Inl _ \<Rightarrow> (Some NilPointerPanic, w)
      | Inr callURL \<Rightarrow>
          let callURL = callURL\<lparr>Path := path_Join [Path callURL,
                ''/v1/'' @ realm @ ''/devices/'' @ deviceID]\<rparr>;
              payload = JObject [(''aliases'', JObject [(aliasTag, JNull)])]
          in genericJSONDataAPIPatch (client s) callURL payload 200 w)"

definition InhibitDevice ::
  "(string \<Rightarrow> bool) \<Rightarrow> (string \<Rightarrow> DeviceIdentifierType \<Rightarrow> string) \<Rightarrow> 'w AppEngineService \<Rightarrow>
   string \<Rightarrow> string \<Rightarrow> DeviceIdentifierType \<Rightarrow> bool \<Rightarrow> 'w \<Rightarrow> error option \<times> 'w" where
  "InhibitDevice canonical devicePath s realm deviceIdentifier deviceIdentifierType inhibit w =
     (let resolvedDeviceIdentifierType =
            resolveDeviceIdentifierType canonical deviceIdentifier deviceIdentifierType
      in case appEngineURL s of
           Inl _ \<Rightarrow> (Some NilPointerPanic, w)
         | Inr callURL \<Rightarrow>
             let callURL = callURL\<lparr>Path := path_Join [Path callURL,
                   ''/v1/'' @ realm @ ''/'' @ devicePath deviceIdentifier resolvedDeviceIdentifierType]\<rparr>;
                 payload = JObject [(''credentials_inhibited'', JBool inhibit)]
             in genericJSONDataAPIPatch (client s) callURL payload 200 w)"



definition SetDeviceMetadata ::
  "(string \<Rightarrow> bool) \<Rightarrow> (string \<Rightarrow> DeviceIdentifierType \<Rightarrow> string) \<Rightarrow> 'w AppEngineService \<Rightarrow>
   string \<Rightarrow> string \<Rightarrow> DeviceIdentifierType \<Rightarrow> string \<Rightarrow> string \<Rightarrow> 'w \<Rightarrow> error option \<times> 'w" where
  "SetDeviceMetadata canonical devicePath s realm deviceIdentifier deviceIdentifierType
       metadataKey metadataValue w =
     (let resolvedDeviceIdentifierType =
            resolveDeviceIdentifierType canonical deviceIdentifier deviceIdentifierType
      in case appEngineURL s of
           Inl _ \<Rightarrow> (Some NilPointerPanic, w)
         | Inr callURL \<Rightarrow>
             let callURL = callURL\<lparr>Path := path_Join [Path callURL,
                   ''/v1/'' @ realm @ ''/'' @ devicePath deviceIdentifier resolvedDeviceIdentifierType]\<rparr>;
                 payload = JObject [(''metadata'', JObject [(metadataKey, JString metadataValue)])]
             in genericJSONDataAPIPatch (client s) callURL payload 200 w)"

definition DeleteDeviceMetadata ::
  "(string \<Rightarrow> bool) \<Rightarrow> (string \<Rightarrow> DeviceIdentifierType \<Rightarrow> string) \<Rightarrow> 'w AppEngineService \<Rightarrow>
   string \<Rightarrow> string \<Rightarrow> DeviceIdentifierType \<Rightarrow> string \<Rightarrow> 'w \<Rightarrow> error option \<times> 'w" where
  "DeleteDeviceMetadata canonical devicePath s realm deviceIdentifier deviceIdentifierType
       metadataKey w =
     (let resolvedDeviceIdentifierType =
            resolveDeviceIdentifierType canonical deviceIdentifier deviceIdentifierType
      in case appEngineURL s of
           Inl _ \<Rightarrow> (Some NilPointerPanic, w)
         | Inr callURL \<Rightarrow>
             let callURL = callURL\<lparr>Path := path_Join [Path callURL,
                   ''/v1/'' @ realm @ ''/'' @ devicePath deviceIdentifier resolvedDeviceIdentifierType]\<rparr>;
                 payload = JObject [(''metadata'', JObject [(metadataKey, JNull)])]
             in genericJSONDataAPIPatch (client s) callURL payload 200 w)"

subsection \<open>Driving a paginator by hand\<close>

text \<open>
  \<open>fetch_pages n d w\<close> is the caller's own loop, run for \<open>n\<close> rounds: ask
  \<open>HasNextPage\<close>, call \<open>GetNextPage\<close>, keep the page. It yields the pages in arrival
  order with the paginator and the world after the last round, and \<open>None\<close> when a round
  finds no next page or its fetch fails. The traversal is exhausted after \<open>n\<close> rounds
  when the paginator it yields has no next page.
\<close>

fun fetch_pages ::
  "nat \<Rightarrow> 'w DeviceListPaginator \<Rightarrow> 'w \<Rightarrow> (string list list \<times> 'w DeviceListPaginator \<times> 'w) option" where
  "fetch_pages 0 d w = Some ([], d, w)"
| "fetch_pages (Suc n) d w =
     (if HasNextPage d then
        (case GetNextPage d w of
           (Inl err, d', w') \<Rightarrow> None
         | (Inr page, d', w') \<Rightarrow>
             (case fetch_pages n d' w' of
                None \<Rightarrow> None
              | Some (pages, r) \<Rightarrow> Some (page # pages, r)))
      else None)"

text \<open>
  The fixed fake backend of the spec's testable properties: it holds the devices
  \<open>devs\<close>, answers every request with status 200 and the page that starts at the
  offset named by the token and has at most \<open>limit\<close> devices, and adds a token for
  the next offset exactly when devices remain after the page. A token is the offset in
  unary; the paginator never looks inside it. The world is the log of the requests
  served.
\<close>

definition fake_backend :: "string list \<Rightarrow> (http_request list) Client" where
  "fake_backend devs req w =
     (let query = RawQuery (req_url req);
          off = (case next_token query of None \<Rightarrow> 0 | Some t \<Rightarrow> length t);
          n = (case limit query of None \<Rightarrow> length devs | Some l \<Rightarrow> nat l);
          page = take n (drop off devs);
          next = (if off + n < length devs then Some (replicate (off + n) CHR ''i'') else None)
      in (Inr \<lparr>status = 200, resp_body = PageBody page next\<rparr>, w @ [req]))"



text \<open>\<open>ceil_div n p\<close> is the quotient of \<open>n\<close> by \<open>p\<close>, rounded up.\<close>

definition ceil_div :: "nat \<Rightarrow> nat \<Rightarrow> nat" where
  "ceil_div n p = (n + p - 1) div p"

subsection \<open>Test doubles\<close>

text \<open>
  Two more transports, for concrete runs. \<open>recording_client r\<close> answers every request
  with \<open>r\<close> and appends the request to the world, which is the log of the requests
  served (as \<open>fake_backend\<close> does). \<open>counting_client r\<close> answers every request
  with \<open>r\<close> and counts the exchanges.
\<close>

definition recording_client :: "error + http_response \<Rightarrow> (http_request list) Client" where
  "recording_client r req w = (r, w @ [req])"

text \<open>
  \<open>flaky_backend devs k\<close> serves its first \<open>k\<close> requests as \<open>fake_backend devs\<close>
  does and fails on every later one.
\<close>

definition flaky_backend :: "string list \<Rightarrow> nat \<Rightarrow> (http_request list) Client" where
  "flaky_backend devs k req w =
     (if length w < k then fake_backend devs req w
      else (Inl (TransportError ''connection reset''), w @ [req]))"

definition counting_client :: "error + http_response \<Rightarrow> nat Client" where
  "counting_client r req n = (r, Suc n)"

definition example_URL :: URL where
  "example_URL = \<lparr>Host = ''https://api.example.com'', Path = ''/appengine'', RawQuery = no_Values\<rparr>"

definition example_service :: "'w Client \<Rightarrow> 'w AppEngineService" where
  "example_service c = \<lparr>appEngineURL = Inr example_URL, client = c\<rparr>"

definition example_paginator :: "'w Client \<Rightarrow> 'w DeviceListPaginator" where
  "example_paginator c =
     \<lparr>baseURL = \<lparr>Host = ''https://api.example.com'', Path = ''/appengine/v1/test/devices'',
                  RawQuery = no_Values\<rparr>,
      nextQuery = no_Values, pageSize = 2, pclient = c, hasNextPage = True\<rparr>"


text \<open>A device-path helper for concrete runs: one path segment per identifier type.\<close>

definition example_devicePath :: "string \<Rightarrow> DeviceIdentifierType \<Rightarrow> string" where
  "example_devicePath deviceIdentifier deviceIdentifierType =
     (if deviceIdentifierType = AstarteDeviceAlias then ''devices-by-alias/'' @ deviceIdentifier
      else ''devices/'' @ deviceIdentifier)"

subsection \<open>What a caller sees of an exchange\<close>

text \<open>
  \<open>rejected r\<close> is the error a caller is owed for the exchange outcome \<open>r\<close> when
  200 is the one status that counts as success: the transport's own error, or the
  unexpected status; \<open>None\<close> when the exchange ended in status 200.
\<close>

definition rejected :: "error + http_response \<Rightarrow> error option" where
  "rejected r =
     (case r of
        Inl err \<Rightarrow> Some err
      | Inr resp \<Rightarrow> if status resp = 200 then None else Some (UnexpectedStatus (status resp)))"


section \<open>Properties\<close>

subsection \<open>Paths built by \<open>path.Join\<close>\<close>

lemma split_slash_not_Nil: "split_slash s \<noteq> []"
  by (induction s) (auto split: list.splits)

lemma split_slash_append:
  "split_slash (a @ CHR ''/'' # b) = split_slash a @ split_slash b"
proof (induction a)
  case Nil
  show ?case by simp
next
  case (Cons c a)
  then show ?case
    using split_slash_not_Nil [of a] by (cases "split_slash a") auto
qed

lemma split_slash_no_slash: "CHR ''/'' \<notin> set e \<Longrightarrow> split_slash e = [e]"
  by (induction e) auto

lemma split_slash_elems: "e \<in> set (split_slash s) \<Longrightarrow> CHR ''/'' \<notin> set e"
proof (induction s arbitrary: e)
  case Nil
  then show ?case by simp
next
  case (Cons c s)
  then show ?case
    using split_slash_not_Nil [of s]
    by (cases "split_slash s") (auto split: if_splits)
qed

lemma join_split_slash: "join_slash (split_slash s) = s"
proof (induction s)
  case Nil
  show ?case by simp
next
  case (Cons c s)
  show ?case
  proof (cases "c = CHR ''/''")
    case True
    with Cons show ?thesis
      using split_slash_not_Nil [of s] by (cases "split_slash s") auto
  next
    case False
    with Cons show ?thesis
      using split_slash_not_Nil [of s]
      by (cases "split_slash s"; cases "tl (split_slash s)") auto
  qed
qed

lemma join_slash_append:
  "xs \<noteq> [] \<Longrightarrow> ys \<noteq> [] \<Longrightarrow> join_slash (xs @ ys) = join_slash xs @ CHR ''/'' # join_slash ys"
proof (induction xs rule: join_slash.induct)
  case 1
  then show ?case by simp
next
  case (2 e)
  then show ?case by (cases ys) auto
next
  case (3 e f es)
  then show ?case by simp
qed

lemma split_join_slash:
  "es \<noteq> [] \<Longrightarrow> \<forall>e \<in> set es. CHR ''/'' \<notin> set e \<Longrightarrow> split_slash (join_slash es) = es"
proof (induction es rule: join_slash.induct)
  case 1
  then show ?case by simp
next
  case (2 e)
  then show ?case by (simp add: split_slash_no_slash)
next
  case (3 e f es)
  then show ?case by (simp add: split_slash_append split_slash_no_slash)
qed

text \<open>Cleaning works through the elements from left to right; plain elements stay.\<close>

lemma clean_elems_append:
  "clean_elems r out (xs @ ys) = clean_elems r (rev (clean_elems r out xs)) ys"
  by (induction xs arbitrary: out) (auto split: list.splits)

lemma clean_elems_plain:
  "\<forall>e \<in> set ys. plain_elem e \<Longrightarrow> clean_elems r out ys = rev out @ ys"
  by (induction ys arbitrary: out) (auto simp: plain_elem_def)

lemma path_Clean_rooted_tail:
  assumes es: "es \<noteq> []" "\<forall>e \<in> set es. plain_elem e \<and> CHR ''/'' \<notin> set e"
    and p: "p = b @ CHR ''/'' # join_slash es" "hd p = CHR ''/''"
  shows "suffix (CHR ''/'' # join_slash es) (path_Clean p)"
proof -
  define st where "st = clean_elems True [] (split_slash b)"
  have "split_slash p = split_slash b @ es"
    using es p by (simp add: split_slash_append split_join_slash)
  then have "clean_elems True [] (split_slash p) = st @ es"
    using es by (simp add: clean_elems_append clean_elems_plain st_def)
  then have out: "path_Clean p = CHR ''/'' # join_slash (st @ es)"
    using p by (simp add: path_Clean_def)
  show ?thesis
  proof (cases "st = []")
    case True
    with out show ?thesis by simp
  next
    case False
    then have "path_Clean p = (CHR ''/'' # join_slash st) @ CHR ''/'' # join_slash es"
      using out es by (simp add: join_slash_append)
    then show ?thesis
      unfolding suffix_def by blast
  qed
qed

lemma path_Join_rooted_tail:
  assumes "base = [] \<or> hd base = CHR ''/''"
    and "es \<noteq> []" "\<forall>e \<in> set es. plain_elem e \<and> CHR ''/'' \<notin> set e"
  shows "suffix (CHR ''/'' # join_slash es) (path_Join [base, CHR ''/'' # join_slash es])"
proof (cases "base = []")
  case True
  then have "path_Join [base, CHR ''/'' # join_slash es] = path_Clean ([] @ CHR ''/'' # join_slash es)"
    by (simp add: path_Join_def)
  then show ?thesis
    using path_Clean_rooted_tail [OF assms(2,3), of "[] @ CHR ''/'' # join_slash es" "[]"] by simp
next
  case False
  then have j: "path_Join [base, CHR ''/'' # join_slash es]
      = path_Clean ((base @ ''/'') @ CHR ''/'' # join_slash es)"
    by (simp add: path_Join_def)
  have "hd ((base @ ''/'') @ CHR ''/'' # join_slash es) = CHR ''/''"
    using False assms(1) by simp
  then show ?thesis
    using path_Clean_rooted_tail [OF assms(2,3), of _ "base @ ''/''"] j by simp
qed

lemma realm_tail:
  "''/v1/'' @ realm @ ''/devices'' = CHR ''/'' # join_slash (''v1'' # split_slash realm @ [''devices''])"
proof -
  have "join_slash (''v1'' # split_slash realm @ [''devices''])
      = ''v1'' @ CHR ''/'' # join_slash (split_slash realm @ [''devices''])"
    using split_slash_not_Nil [of realm] by (cases "split_slash realm") auto
  also have "join_slash (split_slash realm @ [''devices''])
      = realm @ CHR ''/'' # ''devices''"
    using split_slash_not_Nil [of realm] by (simp add: join_slash_append join_split_slash)
  finally show ?thesis by simp
qed

lemma devices_path_suffix:
  assumes "base = [] \<or> hd base = CHR ''/''"
    and "\<forall>e \<in> set (split_slash realm). plain_elem e"
  shows "suffix (''/v1/'' @ realm @ ''/devices'') (path_Join [base, ''/v1/'' @ realm @ ''/devices''])"
proof -
  let ?es = "''v1'' # split_slash realm @ [''devices'']"
  have "\<forall>e \<in> set ?es. plain_elem e \<and> CHR ''/'' \<notin> set e"
    using assms(2) split_slash_elems [of _ realm] by (auto simp: plain_elem_def)
  then show ?thesis
    using path_Join_rooted_tail [OF assms(1), of ?es] by (simp only: realm_tail) simp
qed

subsection \<open>The paginator\<close>

text \<open>
  C5, as the code has it. A paginator returned by \<open>GetDeviceListPaginator\<close> is ready:
  its has-next flag is set, its query parameters are empty, its page size is the
  argument and it talks to the client of the service. Its base URL path is
  \<open>path.Join\<close> of the path of the service URL and \<open>/v1/{realm}/devices\<close>; that path
  ends with \<open>/v1/{realm}/devices\<close> when the path of the service URL is empty or
  absolute and every slash-separated element of the realm is plain (not empty, not
  \<open>.\<close>, not \<open>..\<close>).
\<close>

theorem paginator_starts_ready:
  assumes "GetDeviceListPaginator s realm P = Inr d"
  shows "HasNextPage d \<and> nextQuery d = no_Values \<and> pageSize d = P \<and> pclient d = client s \<and>
    (\<exists>u. appEngineURL s = Inr u \<and> Host (baseURL d) = Host u \<and>
       Path (baseURL d) = path_Join [Path u, ''/v1/'' @ realm @ ''/devices''] \<and>
       ((Path u = [] \<or> hd (Path u) = CHR ''/'') \<and> (\<forall>e \<in> set (split_slash realm). plain_elem e)
          \<longrightarrow> suffix (''/v1/'' @ realm @ ''/devices'') (Path (baseURL d))))"
proof (cases "appEngineURL s")
  case (Inl e)
  with assms show ?thesis by (simp add: GetDeviceListPaginator_def)
next
  case (Inr u)
  with assms have d: "d = \<lparr>baseURL = u\<lparr>Path := path_Join [Path u, ''/v1/'' @ realm @ ''/devices'']\<rparr>,
      nextQuery = no_Values, pageSize = P, pclient = client s, hasNextPage = True\<rparr>"
    by (simp add: GetDeviceListPaginator_def Let_def)
  show ?thesis
    using Inr devices_path_suffix [of "Path u" realm] by (simp add: d HasNextPage_def)
qed

theorem paginator_starts_ready_witness:
  "GetDeviceListPaginator (example_service (fake_backend [''d1''])) ''test'' 2
     = Inr (example_paginator (fake_backend [''d1'']))
   \<and> HasNextPage (example_paginator (fake_backend [''d1'']))
   \<and> suffix ''/v1/test/devices'' (Path (baseURL (example_paginator (fake_backend [''d1'']))))"
proof -
  have h: "GetDeviceListPaginator (example_service (fake_backend [''d1''])) ''test'' 2
     = Inr (example_paginator (fake_backend [''d1'']))"
    by (simp add: GetDeviceListPaginator_def example_service_def example_paginator_def example_URL_def
        path_Join_def path_Clean_def)
  have p: "\<forall>e \<in> set (split_slash ''test''). plain_elem e"
    by (simp add: plain_elem_def)
  from paginator_starts_ready [OF h] p h show ?thesis
    by (auto simp: example_service_def example_URL_def)
qed

text \<open>
  C5 as the spec words it, for every realm, fails: for the realm \<open>..\<close> the path of
  the paginator is \<open>/appengine/devices\<close>, which does not end with
  \<open>/v1/../devices\<close>.
\<close>

theorem realm_dotdot_counterexample:
  "GetDeviceListPaginator (example_service (fake_backend [''d1''])) ''..'' 2
     = Inr ((example_paginator (fake_backend [''d1'']))
              \<lparr>baseURL := \<lparr>Host = ''https://api.example.com'', Path = ''/appengine/devices'',
                            RawQuery = no_Values\<rparr>\<rparr>)
   \<and> \<not> suffix ''/v1/../devices'' ''/appengine/devices''"
proof -
  have "\<not> suffix ''/v1/../devices'' ''/appengine/devices''"
    by (simp add: suffix_def Cons_eq_append_conv)
  then show ?thesis
    by (simp add: GetDeviceListPaginator_def example_service_def example_paginator_def example_URL_def
        path_Join_def path_Clean_def)
qed

lemma GetNextPage_failure:
  "GetNextPage d w = (Inl err, d', w') \<Longrightarrow> d' = d"
  by (auto simp: GetNextPage_def Let_def split: if_splits prod.splits sum.splits option.splits)

text \<open>
  C2: a \<open>GetNextPage\<close> call that fails leaves the paginator exactly as it was, so
  \<open>HasNextPage\<close> answers as before and the same call, retried against the backend state
  of the first attempt, has the same outcome.
\<close>

theorem failed_fetch_keeps_cursor:
  assumes "GetNextPage d w = (Inl err, d', w')"
  shows "d' = d \<and> HasNextPage d' = HasNextPage d \<and> GetNextPage d' w = (Inl err, d', w')"
  using assms GetNextPage_failure [OF assms] by simp

theorem failed_fetch_keeps_cursor_witness:
  "GetNextPage (example_paginator (counting_client (Inl (TransportError ''connection refused'')))) 0
     = (Inl (TransportError ''connection refused''),
        example_paginator (counting_client (Inl (TransportError ''connection refused''))), 1)
   \<and> HasNextPage (example_paginator (counting_client (Inl (TransportError ''connection refused''))))"
proof -
  let ?d = "example_paginator (counting_client (Inl (TransportError ''connection refused'')))"
  have h: "GetNextPage ?d 0 = (Inl (TransportError ''connection refused''), ?d, 1)"
    by (simp add: GetNextPage_def genericJSONDataAPIGET_def counting_client_def example_paginator_def)
  from failed_fetch_keeps_cursor [OF h] h show ?thesis
    by (simp add: HasNextPage_def example_paginator_def)
qed

lemma GetNextPage_keeps:
  "GetNextPage d w = (r, d', w') \<Longrightarrow>
     pageSize d' = pageSize d \<and> pclient d' = pclient d \<and> baseURL d' = baseURL d"
  by (auto simp: GetNextPage_def Let_def split: if_splits prod.splits sum.splits option.splits)

lemma fetch_pages_keeps:
  "fetch_pages n d w = Some (pages, d', w') \<Longrightarrow>
     pageSize d' = pageSize d \<and> pclient d' = pclient d \<and> baseURL d' = baseURL d"
proof (induction n arbitrary: d w pages)
  case 0
  then show ?case by simp
next
  case (Suc n)
  from Suc.prems obtain page d1 w1 ps where
    g: "GetNextPage d w = (Inr page, d1, w1)" and f: "fetch_pages n d1 w1 = Some (ps, d', w')"
    by (auto split: if_splits prod.splits sum.splits option.splits)
  from Suc.IH [OF f] GetNextPage_keeps [OF g] show ?case by simp
qed

lemma GetNextPage_world:
  "hasNextPage d \<Longrightarrow>
     snd (snd (GetNextPage d w)) =
     snd (pclient d \<lparr>req_method = GET,
                     req_url = (baseURL d)\<lparr>RawQuery := (nextQuery d)\<lparr>limit := Some (pageSize d)\<rparr>\<rparr>,
                     req_payload = None\<rparr> w)"
  by (auto simp: GetNextPage_def genericJSONDataAPIGET_def Let_def
      split: prod.splits sum.splits option.splits)

text \<open>
  C6: the page size is fixed when the paginator is built. \<open>GetNextPage\<close>, on any
  paginator and in any world, succeeding or failing, leaves the stored page size as it
  was; \<open>HasNextPage\<close> returns a truth value only. So after any number of rounds of a
  traversal that started from \<open>GetDeviceListPaginator s realm P\<close> the stored page
  size is still \<open>P\<close>, one more \<open>GetNextPage\<close> leaves it at \<open>P\<close>, and the
  exchange of that call is the one request whose page-size bound is \<open>P\<close>.
\<close>

theorem page_size_is_fixed:
  assumes "GetDeviceListPaginator s realm P = Inr d0"
    and "fetch_pages n d0 w0 = Some (pages, d, w)"
  shows "pageSize (fst (snd (GetNextPage e v))) = pageSize e \<and>
    pageSize d = P \<and> pageSize (fst (snd (GetNextPage d w))) = P \<and>
    (HasNextPage d \<longrightarrow>
       snd (snd (GetNextPage d w)) =
       snd (client s \<lparr>req_method = GET,
                      req_url = (baseURL d)\<lparr>RawQuery := (nextQuery d)\<lparr>limit := Some P\<rparr>\<rparr>,
                      req_payload = None\<rparr> w))"
proof -
  from assms(1) have d0: "pageSize d0 = P" "pclient d0 = client s"
    by (auto simp: GetDeviceListPaginator_def Let_def split: sum.splits)
  with fetch_pages_keeps [OF assms(2)] have d: "pageSize d = P" "pclient d = client s"
    by simp_all
  have "pageSize (fst (snd (GetNextPage e v))) = pageSize e"
    using GetNextPage_keeps [of e v] by (cases "GetNextPage e v") auto
  moreover have "pageSize (fst (snd (GetNextPage d w))) = pageSize d"
    using GetNextPage_keeps [of d w] by (cases "GetNextPage d w") auto
  ultimately show ?thesis
    using d GetNextPage_world [of d w] by (simp add: HasNextPage_def)
qed

theorem page_size_is_fixed_witness:
  "GetDeviceListPaginator (example_service (fake_backend [''d1'', ''d2'', ''d3''])) ''test'' 2
     = Inr (example_paginator (fake_backend [''d1'', ''d2'', ''d3'']))
   \<and> (\<exists>d w. fetch_pages 1 (example_paginator (fake_backend [''d1'', ''d2'', ''d3''])) []
              = Some ([[''d1'', ''d2'']], d, w)
         \<and> HasNextPage d \<and> pageSize d = 2 \<and> pageSize (fst (snd (GetNextPage d w))) = 2)"
proof -
  let ?c = "fake_backend [''d1'', ''d2'', ''d3'']"
  let ?d = "(example_paginator ?c)\<lparr>nextQuery := \<lparr>next_token = Some ''ii'', limit = None\<rparr>\<rparr>"
  let ?w = "[\<lparr>req_method = GET,
             req_url = \<lparr>Host = ''https://api.example.com'', Path = ''/appengine/v1/test/devices'',
                        RawQuery = \<lparr>next_token = None, limit = Some 2\<rparr>\<rparr>,
             req_payload = None\<rparr>]"
  have h: "GetDeviceListPaginator (example_service ?c) ''test'' 2 = Inr (example_paginator ?c)"
    by (simp add: GetDeviceListPaginator_def example_service_def example_paginator_def example_URL_def
        path_Join_def path_Clean_def)
  have f: "fetch_pages 1 (example_paginator ?c) [] = Some ([[''d1'', ''d2'']], ?d, ?w)"
    by (simp add: HasNextPage_def GetNextPage_def genericJSONDataAPIGET_def fake_backend_def
        example_paginator_def no_Values_def Let_def)
  have n: "HasNextPage ?d"
    by (simp add: HasNextPage_def example_paginator_def)
  from page_size_is_fixed [OF h f, of ?d ?w]
  have "pageSize ?d = 2" and "pageSize (fst (snd (GetNextPage ?d ?w))) = 2"
    by simp_all
  with f n have "fetch_pages 1 (example_paginator ?c) [] = Some ([[''d1'', ''d2'']], ?d, ?w)
      \<and> HasNextPage ?d \<and> pageSize ?d = 2 \<and> pageSize (fst (snd (GetNextPage ?d ?w))) = 2"
    by (intro conjI)
  then have "\<exists>d w. fetch_pages 1 (example_paginator ?c) [] = Some ([[''d1'', ''d2'']], d, w)
      \<and> HasNextPage d \<and> pageSize d = 2 \<and> pageSize (fst (snd (GetNextPage d w))) = 2"
    by (intro exI)
  with h show ?thesis
    by (intro conjI)
qed

subsection \<open>ListDevices\<close>

lemma loop_after_rounds:
  "fetch_pages n d w = Some (pages, d', w') \<Longrightarrow>
     ListDevices_loop d acc w = ListDevices_loop d' (acc @ concat pages) w'"
proof (induction n arbitrary: d w pages acc)
  case 0
  then show ?case by simp
next
  case (Suc n)
  from Suc.prems obtain page d1 w1 ps where
    h: "HasNextPage d" and g: "GetNextPage d w = (Inr page, d1, w1)"
    and f: "fetch_pages n d1 w1 = Some (ps, d', w')" and p: "pages = page # ps"
    by (auto split: if_splits prod.splits sum.splits option.splits)
  have "ListDevices_loop d acc w = ListDevices_loop d1 (acc @ page) w1"
    using h g by (subst ListDevices_loop.simps) simp
  also have "\<dots> = ListDevices_loop d' ((acc @ page) @ concat ps) w'"
    by (rule Suc.IH [OF f])
  finally show ?case by (simp add: p)
qed

lemma loop_exhausted:
  "\<not> HasNextPage d \<Longrightarrow> ListDevices_loop d acc w = Some ((acc, None), w)"
  by (subst ListDevices_loop.simps) simp

lemma loop_failure:
  "HasNextPage d \<Longrightarrow> GetNextPage d w = (Inl err, d', w') \<Longrightarrow>
     ListDevices_loop d acc w = Some (([], Some err), w')"
  by (subst ListDevices_loop.simps) simp

lemma loop_error_empty:
  assumes "ListDevices_loop d acc w = Some r"
  shows "snd (fst r) \<noteq> None \<longrightarrow> fst (fst r) = []"
  by (rule ListDevices_loop.raw_induct
        [where P = "\<lambda>d acc w r. snd (fst r) \<noteq> None \<longrightarrow> fst (fst r) = []", OF _ assms])
     (auto split: if_splits prod.splits sum.splits)

text \<open>
  C3: when a page fetch inside \<open>ListDevices\<close> fails, after any number of rounds that
  went well, \<open>ListDevices\<close> returns that error with the empty list, and the pages
  fetched before are gone. Whenever \<open>ListDevices\<close> returns an error, the list next to
  it is empty.
\<close>

theorem list_devices_discards_on_error:
  "(GetDeviceListPaginator s realm defaultPageSize = Inr d \<and>
    fetch_pages n d w = Some (pages, d', w') \<and> HasNextPage d' \<and>
    GetNextPage d' w' = (Inl err, d'', w'')
      \<longrightarrow> ListDevices defaultPageSize s realm w = Some (([], Some err), w'')) \<and>
   (ListDevices defaultPageSize s realm w = Some ((ids, Some err'), w1) \<longrightarrow> ids = [])"
proof (intro conjI impI)
  assume "GetDeviceListPaginator s realm defaultPageSize = Inr d \<and>
    fetch_pages n d w = Some (pages, d', w') \<and> HasNextPage d' \<and>
    GetNextPage d' w' = (Inl err, d'', w'')"
  then have g: "GetDeviceListPaginator s realm defaultPageSize = Inr d"
    and f: "fetch_pages n d w = Some (pages, d', w')"
    and h: "HasNextPage d'" and e: "GetNextPage d' w' = (Inl err, d'', w'')"
    by simp_all
  have "ListDevices defaultPageSize s realm w = ListDevices_loop d [] w"
    using g by (simp add: ListDevices_def)
  also have "\<dots> = ListDevices_loop d' ([] @ concat pages) w'"
    by (rule loop_after_rounds [OF f])
  also have "\<dots> = Some (([], Some err), w'')"
    by (rule loop_failure [OF h e])
  finally show "ListDevices defaultPageSize s realm w = Some (([], Some err), w'')" .
next
  assume r: "ListDevices defaultPageSize s realm w = Some ((ids, Some err'), w1)"
  show "ids = []"
  proof (cases "GetDeviceListPaginator s realm defaultPageSize")
    case (Inl e)
    with r show ?thesis by (simp add: ListDevices_def)
  next
    case (Inr d0)
    with r have "ListDevices_loop d0 [] w = Some ((ids, Some err'), w1)"
      by (simp add: ListDevices_def)
    from loop_error_empty [OF this] show ?thesis by simp
  qed
qed

theorem list_devices_discards_on_error_witness:
  "ListDevices 2 (example_service (flaky_backend [''d1'', ''d2'', ''d3''] 1)) ''test'' []
     = Some (([], Some (TransportError ''connection reset'')),
        [\<lparr>req_method = GET,
          req_url = \<lparr>Host = ''https://api.example.com'', Path = ''/appengine/v1/test/devices'',
                     RawQuery = \<lparr>next_token = None, limit = Some 2\<rparr>\<rparr>,
          req_payload = None\<rparr>,
         \<lparr>req_method = GET,
          req_url = \<lparr>Host = ''https://api.example.com'', Path = ''/appengine/v1/test/devices'',
                     RawQuery = \<lparr>next_token = Some ''ii'', limit = Some 2\<rparr>\<rparr>,
          req_payload = None\<rparr>])
   \<and> fetch_pages 1 (example_paginator (flaky_backend [''d1'', ''d2'', ''d3''] 1)) []
     = Some ([[''d1'', ''d2'']],
        (example_paginator (flaky_backend [''d1'', ''d2'', ''d3''] 1))
          \<lparr>nextQuery := \<lparr>next_token = Some ''ii'', limit = None\<rparr>\<rparr>,
        [\<lparr>req_method = GET,
          req_url = \<lparr>Host = ''https://api.example.com'', Path = ''/appengine/v1/test/devices'',
                     RawQuery = \<lparr>next_token = None, limit = Some 2\<rparr>\<rparr>,
          req_payload = None\<rparr>])"
proof -
  let ?c = "flaky_backend [''d1'', ''d2'', ''d3''] 1"
  let ?d = "(example_paginator ?c)\<lparr>nextQuery := \<lparr>next_token = Some ''ii'', limit = None\<rparr>\<rparr>"
  let ?r1 = "\<lparr>req_method = GET,
          req_url = \<lparr>Host = ''https://api.example.com'', Path = ''/appengine/v1/test/devices'',
                     RawQuery = \<lparr>next_token = None, limit = Some 2\<rparr>\<rparr>,
          req_payload = None\<rparr>"
  let ?r2 = "\<lparr>req_method = GET,
          req_url = \<lparr>Host = ''https://api.example.com'', Path = ''/appengine/v1/test/devices'',
                     RawQuery = \<lparr>next_token = Some ''ii'', limit = Some 2\<rparr>\<rparr>,
          req_payload = None\<rparr>"
  have g: "GetDeviceListPaginator (example_service ?c) ''test'' 2 = Inr (example_paginator ?c)"
    by (simp add: GetDeviceListPaginator_def example_service_def example_paginator_def example_URL_def
        path_Join_def path_Clean_def)
  have f: "fetch_pages 1 (example_paginator ?c) [] = Some ([[''d1'', ''d2'']], ?d, [?r1])"
    by (simp add: HasNextPage_def GetNextPage_def genericJSONDataAPIGET_def flaky_backend_def
        fake_backend_def example_paginator_def no_Values_def Let_def)
  have h: "HasNextPage ?d"
    by (simp add: HasNextPage_def example_paginator_def)
  have e: "GetNextPage ?d [?r1] = (Inl (TransportError ''connection reset''), ?d, [?r1, ?r2])"
    by (simp add: GetNextPage_def genericJSONDataAPIGET_def flaky_backend_def
        example_paginator_def no_Values_def Let_def)
  from list_devices_discards_on_error [of "example_service ?c" "''test''" 2 "example_paginator ?c"
      1 "[]" "[[''d1'', ''d2'']]" ?d "[?r1]" "TransportError ''connection reset''" ?d "[?r1, ?r2]"]
    g f h e
  show ?thesis
    by simp
qed

text \<open>
  C4: when the caller's own loop over a paginator with the default page size reaches
  exhaustion without a failed fetch, \<open>ListDevices\<close> returns, and what it returns is
  the concatenation of the pages of that loop in arrival order, with no error, after
  the same exchanges.
\<close>

theorem list_devices_is_the_manual_traversal:
  assumes "GetDeviceListPaginator s realm defaultPageSize = Inr d"
    and "fetch_pages n d w = Some (pages, d', w')"
    and "\<not> HasNextPage d'"
  shows "ListDevices defaultPageSize s realm w = Some ((concat pages, None), w')"
proof -
  have "ListDevices defaultPageSize s realm w = ListDevices_loop d [] w"
    using assms(1) by (simp add: ListDevices_def)
  also have "\<dots> = ListDevices_loop d' ([] @ concat pages) w'"
    by (rule loop_after_rounds [OF assms(2)])
  also have "\<dots> = Some (([] @ concat pages, None), w')"
    by (rule loop_exhausted [OF assms(3)])
  finally show ?thesis by simp
qed

theorem list_devices_is_the_manual_traversal_witness:
  "fetch_pages 2 (example_paginator (fake_backend [''d1'', ''d2'', ''d3''])) []
     = Some ([[''d1'', ''d2''], [''d3'']],
        (example_paginator (fake_backend [''d1'', ''d2'', ''d3'']))
          \<lparr>nextQuery := \<lparr>next_token = Some ''ii'', limit = None\<rparr>, hasNextPage := False\<rparr>,
        [\<lparr>req_method = GET,
          req_url = \<lparr>Host = ''https://api.example.com'', Path = ''/appengine/v1/test/devices'',
                     RawQuery = \<lparr>next_token = None, limit = Some 2\<rparr>\<rparr>,
          req_payload = None\<rparr>,
         \<lparr>req_method = GET,
          req_url = \<lparr>Host = ''https://api.example.com'', Path = ''/appengine/v1/test/devices'',
                     RawQuery = \<lparr>next_token = Some ''ii'', limit = Some 2\<rparr>\<rparr>,
          req_payload = None\<rparr>])
   \<and> ListDevices 2 (example_service (fake_backend [''d1'', ''d2'', ''d3''])) ''test'' []
     = Some (([''d1'', ''d2'', ''d3''], None),
        [\<lparr>req_method = GET,
          req_url = \<lparr>Host = ''https://api.example.com'', Path = ''/appengine/v1/test/devices'',
                     RawQuery = \<lparr>next_token = None, limit = Some 2\<rparr>\<rparr>,
          req_payload = None\<rparr>,
         \<lparr>req_method = GET,
          req_url = \<lparr>Host = ''https://api.example.com'', Path = ''/appengine/v1/test/devices'',
                     RawQuery = \<lparr>next_token = Some ''ii'', limit = Some 2\<rparr>\<rparr>,
          req_payload = None\<rparr>])"
proof -
  let ?c = "fake_backend [''d1'', ''d2'', ''d3'']"
  let ?d = "(example_paginator ?c)
      \<lparr>nextQuery := \<lparr>next_token = Some ''ii'', limit = None\<rparr>, hasNextPage := False\<rparr>"
  have g: "GetDeviceListPaginator (example_service ?c) ''test'' 2 = Inr (example_paginator ?c)"
    by (simp add: GetDeviceListPaginator_def example_service_def example_paginator_def example_URL_def
        path_Join_def path_Clean_def)
  have f: "fetch_pages (Suc (Suc 0)) (example_paginator ?c) []
     = Some ([[''d1'', ''d2''], [''d3'']], ?d,
        [\<lparr>req_method = GET,
          req_url = \<lparr>Host = ''https://api.example.com'', Path = ''/appengine/v1/test/devices'',
                     RawQuery = \<lparr>next_token = None, limit = Some 2\<rparr>\<rparr>,
          req_payload = None\<rparr>,
         \<lparr>req_method = GET,
          req_url = \<lparr>Host = ''https://api.example.com'', Path = ''/appengine/v1/test/devices'',
                     RawQuery = \<lparr>next_token = Some ''ii'', limit = Some 2\<rparr>\<rparr>,
          req_payload = None\<rparr>])"
    by (simp add: HasNextPage_def GetNextPage_def genericJSONDataAPIGET_def
        fake_backend_def example_paginator_def no_Values_def Let_def)
  have h: "\<not> HasNextPage ?d"
    by (simp add: HasNextPage_def)
  from list_devices_is_the_manual_traversal [OF g f h] f
  show ?thesis
    by (simp add: numeral_2_eq_2)
qed

subsection \<open>A traversal of a backend that serves pages\<close>

text \<open>\<open>ceil_div\<close> is the ceiling of the quotient.\<close>

lemma ceil_div_least:
  assumes "0 < p"
  shows "n \<le> ceil_div n p * p" and "n \<le> k * p \<Longrightarrow> ceil_div n p \<le> k"
proof -
  have "n + p - 1 = (n + p - 1) div p * p + (n + p - 1) mod p"
    by simp
  moreover have "(n + p - 1) mod p < p"
    using assms by simp
  ultimately show "n \<le> ceil_div n p * p"
    unfolding ceil_div_def by linarith
  assume "n \<le> k * p"
  then have "n + p - 1 < (k + 1) * p"
    using assms by simp
  then have "(n + p - 1) div p < k + 1"
    using assms by (simp add: div_less_iff_less_mult)
  then show "ceil_div n p \<le> k"
    by (simp add: ceil_div_def)
qed

lemma ceil_div_ceiling:
  assumes "0 < p"
  shows "int (ceil_div n p) = \<lceil>real n / real p\<rceil>"
proof -
  let ?q = "ceil_div n p"
  have "n \<le> ?q * p"
    by (rule ceil_div_least(1) [OF assms])
  then have "real n \<le> real (?q * p)"
    by (simp only: of_nat_le_iff)
  then have upper: "real n / real p \<le> real ?q"
    using assms by (simp add: pos_divide_le_eq)
  have "(n + p - 1) div p * p \<le> n + p - 1"
    by simp
  then have "?q * p < n + p"
    using assms unfolding ceil_div_def by linarith
  then have "real (?q * p) < real (n + p)"
    by (simp only: of_nat_less_iff)
  then have "(real ?q - 1) * real p < real n"
    by (simp add: algebra_simps)
  then have lower: "real ?q - 1 < real n / real p"
    using assms by (simp add: pos_less_divide_eq)
  have "\<lceil>real n / real p\<rceil> = int ?q"
    by (rule ceiling_unique) (use lower upper in simp_all)
  then show ?thesis by simp
qed





lemma ceil_div_pos: "0 < p \<Longrightarrow> 0 < n \<Longrightarrow> 0 < ceil_div n p"
  unfolding ceil_div_def by (simp add: div_greater_zero_iff)







subsection \<open>Identifier resolution\<close>

text \<open>
  C7: an explicit identifier type is returned by the resolver as it is, whatever the
  shape check says about the identifier. With \<open>AstarteDeviceID\<close>,
  \<open>GetDeviceIDFromDeviceIdentifier\<close> returns the identifier it was given, without an
  error and without an exchange (the world is untouched); with \<open>AstarteDeviceAlias\<close>
  it is the alias lookup \<open>GetDeviceIDFromAlias\<close>.
\<close>

theorem explicit_type_is_trusted:
  "(deviceIdentifierType \<noteq> AutodiscoverDeviceIdentifier \<longrightarrow>
      resolveDeviceIdentifierType canonical deviceIdentifier deviceIdentifierType = deviceIdentifierType) \<and>
   resolveDeviceIdentifierType canonical deviceIdentifier AstarteDeviceID = AstarteDeviceID \<and>
   resolveDeviceIdentifierType canonical deviceIdentifier AstarteDeviceAlias = AstarteDeviceAlias \<and>
   GetDeviceIDFromDeviceIdentifier canonical devicePath s realm deviceIdentifier AstarteDeviceID w
     = (Inr deviceIdentifier, w) \<and>
   GetDeviceIDFromDeviceIdentifier canonical devicePath s realm deviceIdentifier AstarteDeviceAlias w
     = GetDeviceIDFromAlias canonical devicePath s realm deviceIdentifier w"
  by (simp add: resolveDeviceIdentifierType_def GetDeviceIDFromDeviceIdentifier_def
      AstarteDeviceID_def AstarteDeviceAlias_def AutodiscoverDeviceIdentifier_def)

theorem explicit_type_is_trusted_witness:
  "GetDeviceIDFromDeviceIdentifier (\<lambda>i. False) example_devicePath
     (example_service (recording_client (Inr \<lparr>status = 200, resp_body = DeviceDetailsBody
        \<lparr>DeviceID = ''id-1'', Aliases = Map.empty, Metadata = Map.empty,
         CredentialsInhibited = False\<rparr>\<rparr>)))
     ''test'' ''not an id'' AstarteDeviceID [] = (Inr ''not an id'', [])
   \<and> GetDeviceIDFromDeviceIdentifier (\<lambda>i. True) example_devicePath
     (example_service (recording_client (Inr \<lparr>status = 200, resp_body = DeviceDetailsBody
        \<lparr>DeviceID = ''id-1'', Aliases = Map.empty, Metadata = Map.empty,
         CredentialsInhibited = False\<rparr>\<rparr>)))
     ''test'' ''my-alias'' AstarteDeviceAlias []
     = (Inr ''id-1'',
        [\<lparr>req_method = GET,
          req_url = \<lparr>Host = ''https://api.example.com'',
                     Path = ''/appengine/v1/test/devices-by-alias/my-alias'', RawQuery = no_Values\<rparr>,
          req_payload = None\<rparr>])
   \<and> resolveDeviceIdentifierType (\<lambda>i. True) ''my-alias'' AstarteDeviceAlias = AstarteDeviceAlias"
proof -
  let ?s = "example_service (recording_client (Inr \<lparr>status = 200, resp_body = DeviceDetailsBody
        \<lparr>DeviceID = ''id-1'', Aliases = Map.empty, Metadata = Map.empty,
         CredentialsInhibited = False\<rparr>\<rparr>))"
  have p: "path_Join [''/appengine'', ''/v1/test/devices-by-alias/my-alias'']
             = ''/appengine/v1/test/devices-by-alias/my-alias''"
    by (simp add: path_Join_def path_Clean_def)
  have a: "GetDeviceIDFromAlias (\<lambda>i. True) example_devicePath ?s ''test'' ''my-alias'' []
     = (Inr ''id-1'',
        [\<lparr>req_method = GET,
          req_url = \<lparr>Host = ''https://api.example.com'',
                     Path = ''/appengine/v1/test/devices-by-alias/my-alias'', RawQuery = no_Values\<rparr>,
          req_payload = None\<rparr>])"
    by (simp add: GetDeviceIDFromAlias_def GetDevice_def resolveDeviceIdentifierType_def
        genericJSONDataAPIGET_def example_service_def recording_client_def example_URL_def
        example_devicePath_def AstarteDeviceAlias_def AutodiscoverDeviceIdentifier_def p)
  have n: "AstarteDeviceAlias \<noteq> AutodiscoverDeviceIdentifier"
    by (simp add: AstarteDeviceAlias_def AutodiscoverDeviceIdentifier_def)
  from explicit_type_is_trusted [of AstarteDeviceAlias "\<lambda>i. False" "''not an id''" example_devicePath ?s "''test''" "[]"]
    explicit_type_is_trusted [of AstarteDeviceAlias "\<lambda>i. True" "''my-alias''" example_devicePath ?s "''test''" "[]"]
    a n
  show ?thesis
    by simp
qed

subsection \<open>Mutations\<close>

lemma Patch_world:
  "snd (genericJSONDataAPIPatch c callURL payload code w)
     = snd (c \<lparr>req_method = PATCH, req_url = callURL, req_payload = Some payload\<rparr> w)"
  by (auto simp: genericJSONDataAPIPatch_def split: prod.splits sum.splits)

text \<open>
  C8: the one exchange of \<open>AddDeviceAlias\<close> is a PATCH with the body
  \<open>{"aliases": {tag: value}}\<close>, that of \<open>DeleteDeviceAlias\<close> a PATCH with
  \<open>{"aliases": {tag: null}}\<close>, and the metadata calls send the same shapes under
  \<open>"metadata"\<close>. A delete body differs from every set body, the one that sets the
  empty string included.
\<close>

theorem set_and_delete_payloads:
  assumes "appEngineURL s = Inr u"
  shows
    "snd (AddDeviceAlias s realm deviceID aliasTag deviceAlias w)
       = snd (client s \<lparr>req_method = PATCH,
                req_url = u\<lparr>Path := path_Join [Path u, ''/v1/'' @ realm @ ''/devices/'' @ deviceID]\<rparr>,
                req_payload = Some (JObject [(''aliases'', JObject [(aliasTag, JString deviceAlias)])])\<rparr> w) \<and>
     snd (DeleteDeviceAlias s realm deviceID aliasTag w)
       = snd (client s \<lparr>req_method = PATCH,
                req_url = u\<lparr>Path := path_Join [Path u, ''/v1/'' @ realm @ ''/devices/'' @ deviceID]\<rparr>,
                req_payload = Some (JObject [(''aliases'', JObject [(aliasTag, JNull)])])\<rparr> w) \<and>
     snd (SetDeviceMetadata canonical devicePath s realm ident t metadataKey metadataValue w)
       = snd (client s \<lparr>req_method = PATCH,
                req_url = u\<lparr>Path := path_Join [Path u, ''/v1/'' @ realm @ ''/'' @
                              devicePath ident (resolveDeviceIdentifierType canonical ident t)]\<rparr>,
                req_payload = Some (JObject [(''metadata'', JObject [(metadataKey, JString metadataValue)])])\<rparr> w) \<and>
     snd (DeleteDeviceMetadata canonical devicePath s realm ident t metadataKey w)
       = snd (client s \<lparr>req_method = PATCH,
                req_url = u\<lparr>Path := path_Join [Path u, ''/v1/'' @ realm @ ''/'' @
                              devicePath ident (resolveDeviceIdentifierType canonical ident t)]\<rparr>,
                req_payload = Some (JObject [(''metadata'', JObject [(metadataKey, JNull)])])\<rparr> w) \<and>
     JObject [(''aliases'', JObject [(aliasTag, JNull)])]
       \<noteq> JObject [(''aliases'', JObject [(aliasTag', JString deviceAlias')])] \<and>
     JObject [(''metadata'', JObject [(metadataKey, JNull)])]
       \<noteq> JObject [(''metadata'', JObject [(metadataKey', JString metadataValue')])]"
  using assms
  by (simp add: AddDeviceAlias_def DeleteDeviceAlias_def SetDeviceMetadata_def
      DeleteDeviceMetadata_def Let_def Patch_world)

theorem set_and_delete_payloads_witness:
  "snd (AddDeviceAlias (example_service (recording_client (Inr \<lparr>status = 200, resp_body = OtherBody\<rparr>)))
          ''test'' ''dev1'' ''t1'' ''foo'' [])
     = [\<lparr>req_method = PATCH,
         req_url = \<lparr>Host = ''https://api.example.com'', Path = ''/appengine/v1/test/devices/dev1'',
                    RawQuery = no_Values\<rparr>,
         req_payload = Some (JObject [(''aliases'', JObject [(''t1'', JString ''foo'')])])\<rparr>]
   \<and> snd (DeleteDeviceAlias (example_service (recording_client (Inr \<lparr>status = 200, resp_body = OtherBody\<rparr>)))
          ''test'' ''dev1'' ''t1'' [])
     = [\<lparr>req_method = PATCH,
         req_url = \<lparr>Host = ''https://api.example.com'', Path = ''/appengine/v1/test/devices/dev1'',
                    RawQuery = no_Values\<rparr>,
         req_payload = Some (JObject [(''aliases'', JObject [(''t1'', JNull)])])\<rparr>]"
proof -
  let ?s = "example_service (recording_client (Inr \<lparr>status = 200, resp_body = OtherBody\<rparr>))"
  have h: "appEngineURL ?s = Inr example_URL"
    by (simp add: example_service_def)
  have p: "path_Join [''/appengine'', ''/v1/test/devices/dev1''] = ''/appengine/v1/test/devices/dev1''"
    by (simp add: path_Join_def path_Clean_def)
  have c: "client ?s = recording_client (Inr \<lparr>status = 200, resp_body = OtherBody\<rparr>)"
    by (simp add: example_service_def)
  from set_and_delete_payloads [OF h, of "''test''" "''dev1''" "''t1''" "''foo''" "[]"]
  show ?thesis
    by (simp add: c recording_client_def example_URL_def p)
qed

lemma device_tail:
  "''/v1/'' @ realm @ ''/devices/'' @ deviceID
     = CHR ''/'' # join_slash (''v1'' # split_slash realm @ ''devices'' # split_slash deviceID)"
proof -
  have "join_slash (''v1'' # split_slash realm @ ''devices'' # split_slash deviceID)
      = ''v1'' @ CHR ''/'' # join_slash (split_slash realm @ ''devices'' # split_slash deviceID)"
    using split_slash_not_Nil [of realm] by (cases "split_slash realm") auto
  also have "join_slash (split_slash realm @ ''devices'' # split_slash deviceID)
      = realm @ CHR ''/'' # join_slash (''devices'' # split_slash deviceID)"
    using split_slash_not_Nil [of realm] by (simp add: join_slash_append join_split_slash)
  also have "join_slash (''devices'' # split_slash deviceID) = ''devices'' @ CHR ''/'' # deviceID"
    using split_slash_not_Nil [of deviceID] join_slash_append [of "[''devices'']" "split_slash deviceID"]
    by (simp add: join_split_slash)
  finally show ?thesis by simp
qed

lemma device_path_suffix:
  assumes "base = [] \<or> hd base = CHR ''/''"
    and "\<forall>e \<in> set (split_slash realm @ split_slash deviceID). plain_elem e"
  shows "suffix (''/v1/'' @ realm @ ''/devices/'' @ deviceID)
           (path_Join [base, ''/v1/'' @ realm @ ''/devices/'' @ deviceID])"
proof -
  let ?es = "''v1'' # split_slash realm @ ''devices'' # split_slash deviceID"
  have "\<forall>e \<in> set ?es. plain_elem e \<and> CHR ''/'' \<notin> set e"
    using assms(2) split_slash_elems [of _ realm] split_slash_elems [of _ deviceID]
    by (auto simp: plain_elem_def)
  then show ?thesis
    using path_Join_rooted_tail [OF assms(1), of ?es] by (simp only: device_tail) simp
qed

lemma Patch_wire:
  "genericJSONDataAPIPatch c callURL payload 200 w
     = (rejected (fst (c \<lparr>req_method = PATCH, req_url = callURL, req_payload = Some payload\<rparr> w)),
        snd (c \<lparr>req_method = PATCH, req_url = callURL, req_payload = Some payload\<rparr> w))"
  by (auto simp: genericJSONDataAPIPatch_def rejected_def split: prod.splits sum.splits)

text \<open>
  C9, as the code has it. \<open>AddDeviceAlias\<close> and \<open>DeleteDeviceAlias\<close> send their one
  PATCH to the path that \<open>path.Join\<close> makes of the path of the service URL and
  \<open>/v1/{realm}/devices/{deviceID}\<close>, with the argument as it is: neither the shape
  check nor the device-path helper takes part. That path ends with
  \<open>/v1/{realm}/devices/{deviceID}\<close> when the path of the service URL is empty or
  absolute and the slash-separated elements of realm and device ID are plain.
  \<open>InhibitDevice\<close>, \<open>SetDeviceMetadata\<close> and \<open>DeleteDeviceMetadata\<close> under
  autodetection send theirs to the path the helper gives for the resolved type: a
  device ID if the shape check accepts the identifier, an alias if not.
\<close>

theorem alias_calls_take_the_id_as_given:
  assumes "appEngineURL s = Inr u"
  shows
    "AddDeviceAlias s realm deviceID aliasTag deviceAlias w
       = (rejected (fst (client s \<lparr>req_method = PATCH,
            req_url = u\<lparr>Path := path_Join [Path u, ''/v1/'' @ realm @ ''/devices/'' @ deviceID]\<rparr>,
            req_payload = Some (JObject [(''aliases'', JObject [(aliasTag, JString deviceAlias)])])\<rparr> w)),
          snd (client s \<lparr>req_method = PATCH,
            req_url = u\<lparr>Path := path_Join [Path u, ''/v1/'' @ realm @ ''/devices/'' @ deviceID]\<rparr>,
            req_payload = Some (JObject [(''aliases'', JObject [(aliasTag, JString deviceAlias)])])\<rparr> w)) \<and>
     DeleteDeviceAlias s realm deviceID aliasTag w
       = (rejected (fst (client s \<lparr>req_method = PATCH,
            req_url = u\<lparr>Path := path_Join [Path u, ''/v1/'' @ realm @ ''/devices/'' @ deviceID]\<rparr>,
            req_payload = Some (JObject [(''aliases'', JObject [(aliasTag, JNull)])])\<rparr> w)),
          snd (client s \<lparr>req_method = PATCH,
            req_url = u\<lparr>Path := path_Join [Path u, ''/v1/'' @ realm @ ''/devices/'' @ deviceID]\<rparr>,
            req_payload = Some (JObject [(''aliases'', JObject [(aliasTag, JNull)])])\<rparr> w)) \<and>
     ((Path u = [] \<or> hd (Path u) = CHR ''/'') \<and>
      (\<forall>e \<in> set (split_slash realm @ split_slash deviceID). plain_elem e)
        \<longrightarrow> suffix (''/v1/'' @ realm @ ''/devices/'' @ deviceID)
              (path_Join [Path u, ''/v1/'' @ realm @ ''/devices/'' @ deviceID])) \<and>
     InhibitDevice canonical devicePath s realm deviceID AutodiscoverDeviceIdentifier inhibit w
       = (rejected (fst (client s \<lparr>req_method = PATCH,
            req_url = u\<lparr>Path := path_Join [Path u, ''/v1/'' @ realm @ ''/'' @
              devicePath deviceID (if canonical deviceID then AstarteDeviceID else AstarteDeviceAlias)]\<rparr>,
            req_payload = Some (JObject [(''credentials_inhibited'', JBool inhibit)])\<rparr> w)),
          snd (client s \<lparr>req_method = PATCH,
            req_url = u\<lparr>Path := path_Join [Path u, ''/v1/'' @ realm @ ''/'' @
              devicePath deviceID (if canonical deviceID then AstarteDeviceID else AstarteDeviceAlias)]\<rparr>,
            req_payload = Some (JObject [(''credentials_inhibited'', JBool inhibit)])\<rparr> w)) \<and>
     SetDeviceMetadata canonical devicePath s realm deviceID AutodiscoverDeviceIdentifier
         metadataKey metadataValue w
       = (rejected (fst (client s \<lparr>req_method = PATCH,
            req_url = u\<lparr>Path := path_Join [Path u, ''/v1/'' @ realm @ ''/'' @
              devicePath deviceID (if canonical deviceID then AstarteDeviceID else AstarteDeviceAlias)]\<rparr>,
            req_payload = Some (JObject [(''metadata'', JObject [(metadataKey, JString metadataValue)])])\<rparr> w)),
          snd (client s \<lparr>req_method = PATCH,
            req_url = u\<lparr>Path := path_Join [Path u, ''/v1/'' @ realm @ ''/'' @
              devicePath deviceID (if canonical deviceID then AstarteDeviceID else AstarteDeviceAlias)]\<rparr>,
            req_payload = Some (JObject [(''metadata'', JObject [(metadataKey, JString metadataValue)])])\<rparr> w)) \<and>
     DeleteDeviceMetadata canonical devicePath s realm deviceID AutodiscoverDeviceIdentifier
         metadataKey w
       = (rejected (fst (client s \<lparr>req_method = PATCH,
            req_url = u\<lparr>Path := path_Join [Path u, ''/v1/'' @ realm @ ''/'' @
              devicePath deviceID (if canonical deviceID then AstarteDeviceID else AstarteDeviceAlias)]\<rparr>,
            req_payload = Some (JObject [(''metadata'', JObject [(metadataKey, JNull)])])\<rparr> w)),
          snd (client s \<lparr>req_method = PATCH,
            req_url = u\<lparr>Path := path_Join [Path u, ''/v1/'' @ realm @ ''/'' @
              devicePath deviceID (if canonical deviceID then AstarteDeviceID else AstarteDeviceAlias)]\<rparr>,
            req_payload = Some (JObject [(''metadata'', JObject [(metadataKey, JNull)])])\<rparr> w))"
proof (intro conjI)
  show "(Path u = [] \<or> hd (Path u) = CHR ''/'') \<and>
      (\<forall>e \<in> set (split_slash realm @ split_slash deviceID). plain_elem e)
        \<longrightarrow> suffix (''/v1/'' @ realm @ ''/devices/'' @ deviceID)
              (path_Join [Path u, ''/v1/'' @ realm @ ''/devices/'' @ deviceID])"
    using device_path_suffix [of "Path u" realm deviceID] by simp
qed (simp_all add: assms AddDeviceAlias_def DeleteDeviceAlias_def InhibitDevice_def
      SetDeviceMetadata_def DeleteDeviceMetadata_def Let_def resolveDeviceIdentifierType_def
      Patch_wire)

theorem alias_calls_take_the_id_as_given_witness:
  "AddDeviceAlias (example_service (recording_client (Inr \<lparr>status = 200, resp_body = OtherBody\<rparr>)))
          ''test'' ''my-alias'' ''t1'' ''foo'' []
     = (None,
        [\<lparr>req_method = PATCH,
          req_url = \<lparr>Host = ''https://api.example.com'', Path = ''/appengine/v1/test/devices/my-alias'',
                     RawQuery = no_Values\<rparr>,
          req_payload = Some (JObject [(''aliases'', JObject [(''t1'', JString ''foo'')])])\<rparr>])
   \<and> InhibitDevice (\<lambda>i. False) example_devicePath
          (example_service (recording_client (Inr \<lparr>status = 200, resp_body = OtherBody\<rparr>)))
          ''test'' ''my-alias'' AutodiscoverDeviceIdentifier True []
     = (None,
        [\<lparr>req_method = PATCH,
          req_url = \<lparr>Host = ''https://api.example.com'',
                     Path = ''/appengine/v1/test/devices-by-alias/my-alias'', RawQuery = no_Values\<rparr>,
          req_payload = Some (JObject [(''credentials_inhibited'', JBool True)])\<rparr>])
   \<and> suffix ''/v1/test/devices/my-alias'' ''/appengine/v1/test/devices/my-alias''"
proof -
  let ?s = "example_service (recording_client (Inr \<lparr>status = 200, resp_body = OtherBody\<rparr>))"
  have h: "appEngineURL ?s = Inr example_URL"
    by (simp add: example_service_def)
  have p: "path_Join [''/appengine'', ''/v1/test/devices/my-alias'']
             = ''/appengine/v1/test/devices/my-alias''"
          "path_Join [''/appengine'', ''/v1/test/devices-by-alias/my-alias'']
             = ''/appengine/v1/test/devices-by-alias/my-alias''"
    by (simp_all add: path_Join_def path_Clean_def)
  have c: "client ?s = recording_client (Inr \<lparr>status = 200, resp_body = OtherBody\<rparr>)"
    by (simp add: example_service_def)
  have e: "\<forall>e \<in> set (split_slash ''test'' @ split_slash ''my-alias''). plain_elem e"
    by (simp add: plain_elem_def)
  from alias_calls_take_the_id_as_given [OF h, of "''test''" "''my-alias''" "''t1''" "''foo''" "[]"
      "\<lambda>i. False" example_devicePath True "''k''" "''v''"] e
  show ?thesis
    by (simp add: c recording_client_def example_URL_def p rejected_def
        example_devicePath_def AstarteDeviceAlias_def AstarteDeviceID_def)
qed

text \<open>
  C9 as the spec words it, for every device ID, fails: for the device ID \<open>..\<close> the
  PATCH of \<open>AddDeviceAlias\<close> goes to \<open>/appengine/v1/test\<close>, which does not end
  with \<open>/v1/test/devices/..\<close>.
\<close>

theorem device_id_dotdot_counterexample:
  "AddDeviceAlias (example_service (recording_client (Inr \<lparr>status = 200, resp_body = OtherBody\<rparr>)))
          ''test'' ''..'' ''t1'' ''foo'' []
     = (None,
        [\<lparr>req_method = PATCH,
          req_url = \<lparr>Host = ''https://api.example.com'', Path = ''/appengine/v1/test'',
                     RawQuery = no_Values\<rparr>,
          req_payload = Some (JObject [(''aliases'', JObject [(''t1'', JString ''foo'')])])\<rparr>])
   \<and> \<not> suffix ''/v1/test/devices/..'' ''/appengine/v1/test''"
proof -
  have "\<not> suffix ''/v1/test/devices/..'' ''/appengine/v1/test''"
    by (simp add: suffix_def Cons_eq_append_conv)
  then show ?thesis
    by (simp add: AddDeviceAlias_def genericJSONDataAPIPatch_def example_service_def
        recording_client_def example_URL_def path_Join_def path_Clean_def)
qed

subsection \<open>Expected status\<close>











end
